theory Spec2Isabelle
  imports Main "HOL-Library.Word"
begin

unbundle bit_operations_syntax

section \<open>JavaScript values used by LdFlexClient.js\<close>

text \<open>
  Strings are lists of 8-bit characters, so the model covers the strings whose code
  units lie in the Latin-1 range. \<open>String.prototype.trim\<close> removes white space and
  line terminators at both ends; in that range these are TAB, LF, VT, FF, CR, SPACE
  and NBSP.
\<close>

definition is_ws :: "char \<Rightarrow> bool" where
  "is_ws c = (of_char c \<in> {9, 10, 11, 12, 13, 32, 160 :: nat})"

definition trim :: "string \<Rightarrow> string" where
  "trim s = rev (dropWhile is_ws (rev (dropWhile is_ws s)))"

text \<open>\<open>str.startsWith(p)\<close>.\<close>

definition startsWith :: "string \<Rightarrow> string \<Rightarrow> bool" where
  "startsWith str p = (take (length p) str = p)"

text \<open>
  An \<open>Error\<close> object: its \<open>name\<close> (\<open>Error\<close>, \<open>TypeError\<close>, \<open>SyntaxError\<close>) and its
  \<open>message\<close>. \<open>error_toString\<close> is \<open>Error.prototype.toString\<close>.
\<close>

datatype js_error = JsError (err_name: string) (message: string)

definition Error :: "string \<Rightarrow> js_error" where
  "Error msg = JsError ''Error'' msg"

definition error_toString :: "js_error \<Rightarrow> string" where
  "error_toString ex =
     (if err_name ex = [] then message ex
      else if message ex = [] then err_name ex
      else err_name ex @ '': '' @ message ex)"

text \<open>
  JavaScript can throw any value. What the code throws itself, and what \<open>JSON.parse\<close>
  and \<open>new URL\<close> throw, are \<open>Error\<close> objects; an asynchronous iterable of the resolver
  can reject with anything: \<open>null\<close>, \<open>undefined\<close>, an \<open>Error\<close> object, or another value,
  taken here to have no \<open>message\<close> property and given by its string form.

  Reading a property of \<open>null\<close> or \<open>undefined\<close> throws a \<open>TypeError\<close>; the wording of
  its message belongs to the JavaScript engine.
\<close>

datatype thrown = ThrownNull | ThrownUndefined | ThrownError js_error | ThrownOther string

definition TypeError_null :: "string \<Rightarrow> js_error" where
  "TypeError_null prop =
     JsError ''TypeError'' (''Cannot read properties of null (reading '' @ prop @ '')'')"

definition TypeError_undefined :: "string \<Rightarrow> js_error" where
  "TypeError_undefined prop =
     JsError ''TypeError'' (''Cannot read properties of undefined (reading '' @ prop @ '')'')"

text \<open>
  \<open>ex.message\<close> for a caught value \<open>ex\<close>: the message, \<open>undefined\<close> (written \<open>None\<close>) when
  the value has none, or the \<open>TypeError\<close> that reading it throws.
\<close>

fun thrown_message :: "thrown \<Rightarrow> js_error + string option" where
  "thrown_message ThrownNull = Inl (TypeError_null ''message'')"
| "thrown_message ThrownUndefined = Inl (TypeError_undefined ''message'')"
| "thrown_message (ThrownError ex) = Inr (Some (message ex))"
| "thrown_message (ThrownOther str) = Inr None"

text \<open>\<open>ex.toString()\<close> for a caught value \<open>ex\<close>.\<close>

fun thrown_toString :: "thrown \<Rightarrow> js_error + string" where
  "thrown_toString ThrownNull = Inl (TypeError_null ''toString'')"
| "thrown_toString ThrownUndefined = Inl (TypeError_undefined ''toString'')"
| "thrown_toString (ThrownError ex) = Inr (error_toString ex)"
| "thrown_toString (ThrownOther str) = Inr str"

text \<open>
  The staleness value \<open>ldfQryCtxStale\<close> is a number on which the code uses the bitwise
  operators \<open>|\<close> and \<open>^\<close> (32-bit in JavaScript) and the logical operator \<open>&&\<close>.
  \<open>a && b\<close> evaluates to \<open>a\<close> when \<open>a\<close> is falsy and to \<open>b\<close> otherwise; a number is
  falsy exactly when it is zero.
\<close>

definition truthy :: "32 word \<Rightarrow> bool" where
  "truthy w = (w \<noteq> 0)"

definition js_and :: "32 word \<Rightarrow> 32 word \<Rightarrow> 32 word" where
  "js_and a b = (if truthy a then b else a)"

definition QC_STALE_SOURCE_CHANGED :: "32 word" where
  "QC_STALE_SOURCE_CHANGED = 4"

definition QC_STALE_CONTEXT_CHANGED :: "32 word" where
  "QC_STALE_CONTEXT_CHANGED = 2"

definition QC_STALE_SUBJECT_CHANGED :: "32 word" where
  "QC_STALE_SUBJECT_CHANGED = 1"

definition QC_VALID :: "32 word" where
  "QC_VALID = 0"

section \<open>The external resolver\<close>

text \<open>
  The objects of the LDflex library are immutable once built; each is modelled by the
  arguments it was built from. \<open>'j\<close> is the type of the parsed JSON-LD context, which
  the code passes on unopened.
\<close>

datatype engine = ComunicaEngine string

datatype named_node = namedNode "string option"

datatype 'j path_factory = PathFactory (pf_context: "'j option") (pf_queryEngine: "engine option")

datatype 'j ldpath = LdPath "'j path_factory" named_node

definition create :: "'j path_factory \<Rightarrow> named_node \<Rightarrow> 'j ldpath" where
  "create pf subj = LdPath pf subj"

text \<open>
  An asynchronous iterable, as \<open>for await\<close> sees it: each request for the next element
  yields a value, ends the sequence, or throws. The producer is finite.
\<close>

datatype 'v producer = Done | Yield 'v "'v producer" | Throw thrown

fun from_list :: "'v list \<Rightarrow> 'v producer" where
  "from_list [] = Done"
| "from_list (v # vs) = Yield v (from_list vs)"

fun yielded :: "'v producer \<Rightarrow> 'v list" where
  "yielded Done = []"
| "yielded (Yield v p) = v # yielded p"
| "yielded (Throw ex) = []"

fun failure :: "'v producer \<Rightarrow> thrown option" where
  "failure Done = None"
| "failure (Yield v p) = failure p"
| "failure (Throw ex) = Some ex"

record url =
  origin :: string

text \<open>
  What the code calls and does not define: \<open>JSON.parse\<close>, \<open>new URL\<close>, the \<open>toString\<close>
  of a yielded value, and the three iterables of a path (\<open>path.resolve(expr)\<close>,
  \<open>path.subjects\<close>, \<open>path.properties\<close>). A throw of \<open>resolve\<close> itself is a producer
  that throws at once: both reach the same handler with the same state.
\<close>

record ('j, 'v) env =
  JSON_parse :: "string \<Rightarrow> js_error + 'j"
  URL :: "string \<Rightarrow> js_error + url"
  toString :: "'v \<Rightarrow> string"
  resolve :: "'j ldpath \<Rightarrow> string \<Rightarrow> 'v producer"
  subjects :: "'j ldpath \<Rightarrow> 'v producer"
  properties :: "'j ldpath \<Rightarrow> 'v producer"

section \<open>Component state\<close>

record 'j qry_ctx =
  queryEngine :: "engine option"
  pathFactory :: "'j path_factory option"
  subjectPath :: "'j ldpath option"

datatype slot = EngineSlot | PathFactorySlot | SubjectPathSlot

text \<open>
  The React state of the component together with the module-level variables
  \<open>gLdfQryCtx\<close>, \<open>grSubjects\<close> and \<open>grSubjectProperties\<close>. \<open>rebuilds\<close> is a log kept
  by the model only: every assignment to a slot of \<open>gLdfQryCtx\<close> appends the slot's
  name. The field \<open>context'\<close> is the variable \<open>context\<close>. The output format and the
  permalink play no part in what follows and are left out.

  A handler reads the state of the render it was created in and its \<open>set...\<close> calls
  take effect together afterwards, the last call for a variable winning. No handler
  below reads a React variable after setting it, so passing the state along gives the
  same result.
\<close>

record 'j state =
  ldfQryCtxStale :: "32 word"
  source :: string
  ldfSubject :: "string option"
  ldfProperty :: "string option"
  context' :: string
  ldfDataPath :: string
  queryResult :: "string list option"
  status :: "string option"
  responsePending :: bool
  gLdfQryCtx :: "'j qry_ctx"
  grSubjects :: "string list"
  grSubjectProperties :: "string list"
  rebuilds :: "slot list"

text \<open>\<open>!str || !str.trim()\<close> for a variable holding \<open>null\<close> or a string.\<close>

definition blank :: "string option \<Rightarrow> bool" where
  "blank v = (case v of None \<Rightarrow> True | Some str \<Rightarrow> str = [] \<or> trim str = [])"

section \<open>Collecting a result\<close>

text \<open>
  A JavaScript \<open>Set\<close> of strings keeps its elements in insertion order: a list without
  repetitions, \<open>add\<close> appending a string that is not yet there. \<open>[...data]\<close> is that
  list.
\<close>

definition set_add :: "string \<Rightarrow> string list \<Rightarrow> string list" where
  "set_add x data = (if x \<in> set data then data else data @ [x])"

text \<open>Lines 227 to 232 of \<open>execQuery\<close>: the loop over the resolved path.\<close>

fun execQuery_collect :: "('v \<Rightarrow> string) \<Rightarrow> string list \<Rightarrow> 'v producer \<Rightarrow> thrown + string list" where
  "execQuery_collect ts data Done = Inr data"
| "execQuery_collect ts data (Yield val p) = execQuery_collect ts (set_add (ts val) data) p"
| "execQuery_collect ts data (Throw ex) = Inl ex"

text \<open>
  The specification's words: the distinct string forms, each at the place of its first
  occurrence.
\<close>

fun first_occurrences :: "string list \<Rightarrow> string list" where
  "first_occurrences [] = []"
| "first_occurrences (x # xs) = x # removeAll x (first_occurrences xs)"

section \<open>The query context\<close>

definition clearQueryResultAndStatus :: "'j state \<Rightarrow> 'j state" where
  "clearQueryResultAndStatus s = s\<lparr>queryResult := None, status := None\<rparr>"

definition clearLdfSubject :: "'j state \<Rightarrow> 'j state" where
  "clearLdfSubject s =
     s\<lparr>ldfSubject := None, ldfProperty := None, grSubjects := [], grSubjectProperties := []\<rparr>"

text \<open>
  \<open>validateSource\<close>. \<open>source\<close> always holds a string, so \<open>!source\<close> asks whether it is
  empty; \<open>!parsedSourceUrl\<close> is false of every object. An exception of the inner block
  is rethrown with the prefix \<open>Invalid source URL: \<close>.
\<close>

definition validateSource :: "('j, 'v) env \<Rightarrow> 'j state \<Rightarrow> js_error + string" where
  "validateSource env s =
     (case (if source s = [] \<or> trim (source s) = [] then Inl (Error ''Empty string'')
            else let src = trim (source s) in
              (case URL env src of
                 Inl ex \<Rightarrow> Inl ex
               | Inr parsedSourceUrl \<Rightarrow>
                   if origin parsedSourceUrl = ''null'' then Inl (Error ''URL parsing error'')
                   else Inr src)) of
        Inl ex \<Rightarrow> Inl (Error (''Invalid source URL: '' @ message ex))
      | Inr src \<Rightarrow> Inr src)"

text \<open>Assignments to the three slots of \<open>gLdfQryCtx\<close>, each entered in the log.\<close>

definition set_queryEngine :: "engine \<Rightarrow> 'j state \<Rightarrow> 'j state" where
  "set_queryEngine e s =
     s\<lparr>gLdfQryCtx := (gLdfQryCtx s)\<lparr>queryEngine := Some e\<rparr>, rebuilds := rebuilds s @ [EngineSlot]\<rparr>"

definition set_pathFactory :: "'j path_factory \<Rightarrow> 'j state \<Rightarrow> 'j state" where
  "set_pathFactory pf s =
     s\<lparr>gLdfQryCtx := (gLdfQryCtx s)\<lparr>pathFactory := Some pf\<rparr>,
       rebuilds := rebuilds s @ [PathFactorySlot]\<rparr>"

definition set_subjectPath :: "'j ldpath \<Rightarrow> 'j state \<Rightarrow> 'j state" where
  "set_subjectPath p s =
     s\<lparr>gLdfQryCtx := (gLdfQryCtx s)\<lparr>subjectPath := Some p\<rparr>,
       rebuilds := rebuilds s @ [SubjectPathSlot]\<rparr>"

definition refreshLdfQryCtxEngine :: "'j state \<Rightarrow> 'j state" where
  "refreshLdfQryCtxEngine s =
     (if truthy (js_and (ldfQryCtxStale s) QC_STALE_SOURCE_CHANGED)
      then (set_queryEngine (ComunicaEngine (source s)) s)
             \<lparr>ldfQryCtxStale := ldfQryCtxStale s XOR QC_STALE_SOURCE_CHANGED\<rparr>
      else s)"

text \<open>
  \<open>refreshLdfQryCtx\<close>. What it can throw is an \<open>Error\<close> object: the \<open>SyntaxError\<close> of
  \<open>JSON.parse\<close> or the \<open>TypeError\<close> of calling \<open>create\<close> on \<open>null\<close>. An exception leaves the function with the slots assigned so far:
  \<open>Inl\<close> carries the exception and the state at the throw.
\<close>

definition refreshLdfQryCtx :: "('j, 'v) env \<Rightarrow> 'j state \<Rightarrow> (js_error \<times> 'j state) + 'j state" where
  "refreshLdfQryCtx env s =
     (let s1 = (if truthy (js_and (ldfQryCtxStale s) QC_STALE_SOURCE_CHANGED)
                then set_queryEngine (ComunicaEngine (source s)) s
                else s)
      in case (if truthy (js_and (ldfQryCtxStale s)
                        (QC_STALE_SOURCE_CHANGED OR QC_STALE_CONTEXT_CHANGED))
               then (case JSON_parse env (context' s) of
                       Inl ex \<Rightarrow> Inl (ex, s1)
                     | Inr contextObj \<Rightarrow>
                         Inr (set_pathFactory
                                (PathFactory (Some contextObj) (queryEngine (gLdfQryCtx s1))) s1))
               else Inr s1) of
           Inl thrown \<Rightarrow> Inl thrown
         | Inr s2 \<Rightarrow>
             (case (if truthy (js_and (ldfQryCtxStale s)
                          (QC_STALE_SOURCE_CHANGED OR QC_STALE_CONTEXT_CHANGED
                             OR QC_STALE_SUBJECT_CHANGED))
                    then (case pathFactory (gLdfQryCtx s2) of
                            None \<Rightarrow> Inl (TypeError_null ''create'', s2)
                          | Some pf \<Rightarrow>
                              Inr (set_subjectPath (create pf (namedNode (ldfSubject s))) s2))
                    else Inr s2) of
                Inl thrown \<Rightarrow> Inl thrown
              | Inr s3 \<Rightarrow> Inr (s3\<lparr>ldfQryCtxStale := QC_VALID\<rparr>)))"

section \<open>Executing a query\<close>

text \<open>
  The four validation blocks of \<open>execQuery\<close>, in order: the status message of the first
  one that fails.
\<close>

definition execQuery_validate :: "('j, 'v) env \<Rightarrow> 'j state \<Rightarrow> string option" where
  "execQuery_validate env s =
     (case validateSource env s of
        Inl ex \<Rightarrow> Some (message ex)
      | Inr src \<Rightarrow>
          if blank (ldfSubject s)
          then Some (''Invalid subject URI: '' @ message (Error ''No subject selected.''))
          else
            (case (if context' s = [] \<or> trim (context' s) = []
                   then Inl (Error ''Empty JSON-LD context'')
                   else JSON_parse env (context' s)) of
               Inl ex \<Rightarrow> Some (''Invalid context: '' @ error_toString ex)
             | Inr contextObj \<Rightarrow>
                 if ldfDataPath s = [] \<or> trim (ldfDataPath s) = []
                 then Some (''Invalid LDflex data path: ''
                              @ error_toString (Error ''Data path not set''))
                 else None))"

text \<open>
  The body of the last \<open>try\<close> block of \<open>execQuery\<close>: \<open>Inl\<close> carries the thrown value and
  the state at the throw.
\<close>

definition execQuery_try :: "('j, 'v) env \<Rightarrow> 'j state \<Rightarrow> (thrown \<times> 'j state) + 'j state" where
  "execQuery_try env s =
     (case (if truthy (ldfQryCtxStale s) then refreshLdfQryCtx env s else Inr s) of
        Inl (ex, s1) \<Rightarrow> Inl (ThrownError ex, s1)
      | Inr s1 \<Rightarrow>
          (case subjectPath (gLdfQryCtx s1) of
             None \<Rightarrow> Inl (ThrownError (TypeError_null ''resolve''), s1)
           | Some p \<Rightarrow>
               (case execQuery_collect (toString env) [] (resolve env p (ldfDataPath s)) of
                  Inl ex \<Rightarrow> Inl (ex, s1)
                | Inr data \<Rightarrow> Inr (s1\<lparr>queryResult := Some data\<rparr>))))"

text \<open>
  How a call of one of the asynchronous operations ends: the state it leaves, and the
  exception its promise is rejected with when one leaves the operation uncaught.
\<close>

datatype 'j completion = Completion (rejected: "js_error option") (final: "'j state")

text \<open>
  \<open>execQuery\<close>. The handler of the last block evaluates \<open>ex.toString()\<close> before it sets the
  status; when that throws, the handler is left, \<open>finally\<close> still runs and the new
  exception leaves the operation.
\<close>

definition execQuery_run :: "('j, 'v) env \<Rightarrow> 'j state \<Rightarrow> 'j completion" where
  "execQuery_run env s =
     (let s0 = clearQueryResultAndStatus s in
      case execQuery_validate env s of
        Some msg \<Rightarrow> Completion None (s0\<lparr>status := Some msg\<rparr>)
      | None \<Rightarrow>
          (case execQuery_try env s0 of
             Inl (ex, s1) \<Rightarrow>
               (case thrown_toString ex of
                  Inl err \<Rightarrow> Completion (Some err) (s1\<lparr>responsePending := False\<rparr>)
                | Inr str \<Rightarrow>
                    Completion None
                      (s1\<lparr>status := Some (''Query execution failed: '' @ str),
                          responsePending := False\<rparr>))
           | Inr s1 \<Rightarrow> Completion None (s1\<lparr>responsePending := False\<rparr>)))"

text \<open>The state a call of \<open>execQuery\<close> leaves.\<close>

definition execQuery :: "('j, 'v) env \<Rightarrow> 'j state \<Rightarrow> 'j state" where
  "execQuery env s = final (execQuery_run env s)"

section \<open>Enumerating subjects and properties\<close>

text \<open>
  The loop of \<open>getSourceSubjects\<close> pushes onto the module-level list \<open>grSubjects\<close>, so
  what was pushed before a throw stays in the list.
\<close>

fun getSourceSubjects_loop ::
  "('v \<Rightarrow> string) \<Rightarrow> string list \<Rightarrow> 'v producer \<Rightarrow> thrown option \<times> string list" where
  "getSourceSubjects_loop ts subs Done = (None, subs)"
| "getSourceSubjects_loop ts subs (Yield subject p) =
     (let subjectUri = ts subject
      in getSourceSubjects_loop ts
           (if startsWith subjectUri ''http'' then subs @ [subjectUri] else subs) p)"
| "getSourceSubjects_loop ts subs (Throw ex) = (Some ex, subs)"

text \<open>The body of the \<open>try\<close> block of \<open>getSourceSubjects\<close>.\<close>

definition getSourceSubjects_try ::
  "('j, 'v) env \<Rightarrow> 'j state \<Rightarrow> (thrown \<times> 'j state) + 'j state" where
  "getSourceSubjects_try env s =
     (case validateSource env s of
        Inl ex \<Rightarrow> Inl (ThrownError ex, s)
      | Inr src \<Rightarrow>
          (let s1 = (if truthy (ldfQryCtxStale s) then refreshLdfQryCtxEngine s else s);
               pathFactory = PathFactory None (queryEngine (gLdfQryCtx s1));
               srcPath = create pathFactory (namedNode (Some src));
               s2 = s1\<lparr>responsePending := True\<rparr>
           in case getSourceSubjects_loop (toString env) (grSubjects s2) (subjects env srcPath) of
                (Some ex, subs) \<Rightarrow> Inl (ex, s2\<lparr>grSubjects := subs\<rparr>)
              | (None, subs) \<Rightarrow>
                  Inr (if subs \<noteq> [] then s2\<lparr>grSubjects := subs, ldfSubject := Some (hd subs)\<rparr>
                       else s2\<lparr>grSubjects := subs\<rparr>)))"

text \<open>
  \<open>getSourceSubjects\<close>. The handler evaluates \<open>ex.message\<close> first: when that throws, the
  three \<open>set...\<close> calls of the handler are skipped, \<open>finally\<close> still runs and the new
  exception leaves the operation. A status set to \<open>undefined\<close> is written \<open>None\<close>.
\<close>

definition getSourceSubjects_run :: "('j, 'v) env \<Rightarrow> 'j state \<Rightarrow> 'j completion" where
  "getSourceSubjects_run env s =
     (case getSourceSubjects_try env ((clearQueryResultAndStatus s)\<lparr>grSubjects := []\<rparr>) of
        Inl (ex, s1) \<Rightarrow>
          (case thrown_message ex of
             Inl err \<Rightarrow> Completion (Some err) (s1\<lparr>responsePending := False\<rparr>)
           | Inr msg \<Rightarrow>
               Completion None
                 (s1\<lparr>status := msg, ldfQryCtxStale := QC_STALE_SOURCE_CHANGED,
                     ldfSubject := None, responsePending := False\<rparr>))
      | Inr s1 \<Rightarrow> Completion None (s1\<lparr>responsePending := False\<rparr>))"

text \<open>The state a call of \<open>getSourceSubjects\<close> leaves.\<close>

definition getSourceSubjects :: "('j, 'v) env \<Rightarrow> 'j state \<Rightarrow> 'j state" where
  "getSourceSubjects env s = final (getSourceSubjects_run env s)"

fun getSubjectProperties_loop ::
  "('v \<Rightarrow> string) \<Rightarrow> string list \<Rightarrow> 'v producer \<Rightarrow> thrown option \<times> string list" where
  "getSubjectProperties_loop ts props Done = (None, props)"
| "getSubjectProperties_loop ts props (Yield property p) =
     (let propertyUri = ts property
      in getSubjectProperties_loop ts (props @ [propertyUri]) p)"
| "getSubjectProperties_loop ts props (Throw ex) = (Some ex, props)"

definition getSubjectProperties_try ::
  "('j, 'v) env \<Rightarrow> 'j state \<Rightarrow> (thrown \<times> 'j state) + 'j state" where
  "getSubjectProperties_try env s =
     (if blank (ldfSubject s) then Inl (ThrownError (Error ''Error: No subject selected.''), s)
      else if queryEngine (gLdfQryCtx s) = None
      then Inl (ThrownError (Error ''Error: Query engine not instantiated.''), s)
      else
        (let pathFactory = PathFactory None (queryEngine (gLdfQryCtx s));
             subjectPath = create pathFactory (namedNode (ldfSubject s));
             s1 = s\<lparr>responsePending := True\<rparr>
         in case getSubjectProperties_loop (toString env) (grSubjectProperties s1)
                   (properties env subjectPath) of
              (Some ex, props) \<Rightarrow> Inl (ex, s1\<lparr>grSubjectProperties := props\<rparr>)
            | (None, props) \<Rightarrow>
                Inr (if props \<noteq> []
                     then s1\<lparr>grSubjectProperties := props, ldfProperty := Some (hd props)\<rparr>
                     else s1\<lparr>grSubjectProperties := props\<rparr>)))"

definition getSubjectProperties_run :: "('j, 'v) env \<Rightarrow> 'j state \<Rightarrow> 'j completion" where
  "getSubjectProperties_run env s =
     (case getSubjectProperties_try env (s\<lparr>grSubjectProperties := []\<rparr>) of
        Inl (ex, s1) \<Rightarrow>
          (case thrown_message ex of
             Inl err \<Rightarrow> Completion (Some err) (s1\<lparr>responsePending := False\<rparr>)
           | Inr msg \<Rightarrow>
               Completion None
                 (s1\<lparr>status := msg, ldfProperty := None, responsePending := False\<rparr>))
      | Inr s1 \<Rightarrow> Completion None (s1\<lparr>responsePending := False\<rparr>))"

text \<open>The state a call of \<open>getSubjectProperties\<close> leaves.\<close>

definition getSubjectProperties :: "('j, 'v) env \<Rightarrow> 'j state \<Rightarrow> 'j state" where
  "getSubjectProperties env s = final (getSubjectProperties_run env s)"

section \<open>Change handlers\<close>

text \<open>The argument \<open>v\<close> is \<open>event.target.value\<close>.\<close>

definition sourceChangeHandler :: "string \<Rightarrow> 'j state \<Rightarrow> 'j state" where
  "sourceChangeHandler v s =
     (clearLdfSubject (clearQueryResultAndStatus s))
       \<lparr>source := v, ldfQryCtxStale := QC_STALE_SOURCE_CHANGED\<rparr>"

definition contextChangeHandler :: "string \<Rightarrow> 'j state \<Rightarrow> 'j state" where
  "contextChangeHandler v s =
     (clearQueryResultAndStatus s)\<lparr>context' := v, ldfQryCtxStale := QC_STALE_CONTEXT_CHANGED\<rparr>"

definition dataPathChangeHandler :: "string \<Rightarrow> 'j state \<Rightarrow> 'j state" where
  "dataPathChangeHandler v s = (clearQueryResultAndStatus s)\<lparr>ldfDataPath := v\<rparr>"

definition lstSubjectChangeHandler :: "string \<Rightarrow> 'j state \<Rightarrow> 'j state" where
  "lstSubjectChangeHandler v s =
     (clearQueryResultAndStatus s)
       \<lparr>ldfSubject := Some v, ldfQryCtxStale := QC_STALE_SUBJECT_CHANGED\<rparr>"

definition lstPropertyChangeHandler :: "string \<Rightarrow> 'j state \<Rightarrow> 'j state" where
  "lstPropertyChangeHandler v s = clearQueryResultAndStatus (s\<lparr>ldfProperty := Some v\<rparr>)"

text \<open>The three changes of an input that mark the query context stale.\<close>

datatype input_change = SourceChange string | ContextChange string | SubjectChange string

fun on_change :: "input_change \<Rightarrow> 'j state \<Rightarrow> 'j state" where
  "on_change (SourceChange v) s = sourceChangeHandler v s"
| "on_change (ContextChange v) s = contextChangeHandler v s"
| "on_change (SubjectChange v) s = lstSubjectChangeHandler v s"

fun own_flag :: "input_change \<Rightarrow> 32 word" where
  "own_flag (SourceChange v) = QC_STALE_SOURCE_CHANGED"
| "own_flag (ContextChange v) = QC_STALE_CONTEXT_CHANGED"
| "own_flag (SubjectChange v) = QC_STALE_SUBJECT_CHANGED"

fun on_changes :: "input_change list \<Rightarrow> 'j state \<Rightarrow> 'j state" where
  "on_changes [] s = s"
| "on_changes (c # cs) s = on_changes cs (on_change c s)"

text \<open>
  The three flags of the specification's staleness state, read off the staleness value
  with the bit each constant stands for.
\<close>

definition sourceChanged :: "32 word \<Rightarrow> bool" where
  "sourceChanged w = (w AND QC_STALE_SOURCE_CHANGED \<noteq> 0)"

definition contextChanged :: "32 word \<Rightarrow> bool" where
  "contextChanged w = (w AND QC_STALE_CONTEXT_CHANGED \<noteq> 0)"

definition subjectChanged :: "32 word \<Rightarrow> bool" where
  "subjectChanged w = (w AND QC_STALE_SUBJECT_CHANGED \<noteq> 0)"

definition flags :: "32 word \<Rightarrow> bool \<times> bool \<times> bool" where
  "flags w = (sourceChanged w, contextChanged w, subjectChanged w)"

text \<open>
  The specification's words for the subject filter: an identifier that begins with an
  HTTP(S) scheme, that is with \<open>http:\<close> or \<open>https:\<close>.
\<close>

definition has_http_scheme :: "string \<Rightarrow> bool" where
  "has_http_scheme u = (startsWith u ''http:'' \<or> startsWith u ''https:'')"

text \<open>
  The path \<open>srcPath\<close> whose subjects \<open>getSourceSubjects\<close> reads, for the validated
  source \<open>src\<close>: it is created from the engine slot as the guarded call of
  \<open>refreshLdfQryCtxEngine\<close> leaves it.
\<close>

definition getSourceSubjects_srcPath :: "'j state \<Rightarrow> string \<Rightarrow> 'j ldpath" where
  "getSourceSubjects_srcPath s src =
     create (PathFactory None
               (queryEngine (gLdfQryCtx (if truthy (ldfQryCtxStale s)
                                         then refreshLdfQryCtxEngine s else s))))
       (namedNode (Some src))"

text \<open>
  The state of a freshly mounted component with the given source and context (from
  the page's query string, or the defaults).
\<close>

definition initial :: "string \<Rightarrow> string \<Rightarrow> 'j state" where
  "initial src ctx =
     \<lparr>ldfQryCtxStale = QC_STALE_SOURCE_CHANGED, source = src, ldfSubject = None,
      ldfProperty = None, context' = ctx, ldfDataPath = ''.interest.label'',
      queryResult = None, status = None, responsePending = False,
      gLdfQryCtx = \<lparr>queryEngine = None, pathFactory = None, subjectPath = None\<rparr>,
      grSubjects = [], grSubjectProperties = [], rebuilds = []\<rparr>"

text \<open>
  A resolver for running the operations on concrete inputs: it parses the context
  \<open>{}\<close> only, gives \<open>http:\<close> and \<open>https:\<close> URLs their own text as origin and \<open>urn:\<close>
  URIs the origin \<open>null\<close>, rejects every other string, and lets every path produce
  \<open>out\<close>.
\<close>

definition sample_env :: "string producer \<Rightarrow> (string, string) env" where
  "sample_env out =
     \<lparr>JSON_parse = (\<lambda>t. if t = ''{}'' then Inr ''{}''
                         else Inl (JsError ''SyntaxError'' ''Unexpected token'')),
      URL = (\<lambda>u. if startsWith u ''http://'' \<or> startsWith u ''https://'' then Inr \<lparr>origin = u\<rparr>
                  else if startsWith u ''urn:'' then Inr \<lparr>origin = ''null''\<rparr>
                  else Inl (JsError ''TypeError'' ''Invalid URL'')),
      toString = (\<lambda>v. v),
      resolve = (\<lambda>p e. out),
      subjects = (\<lambda>p. out),
      properties = (\<lambda>p. out)\<rparr>"

section \<open>Staleness and rebuilding\<close>

lemma xor_source_keeps_context: "((w :: 32 word) XOR 4) AND 2 = w AND 2"
  by (rule bit_eqI) (auto simp: bit_simps)

lemma xor_source_keeps_subject: "((w :: 32 word) XOR 4) AND 1 = w AND 1"
  by (rule bit_eqI) (auto simp: bit_simps)

text \<open>
  \<open>refreshLdfQryCtxEngine\<close> never touches the context and subject flags, nor the
  path-factory and subject-path slots.
\<close>

lemma refreshLdfQryCtxEngine_frame:
  "contextChanged (ldfQryCtxStale (refreshLdfQryCtxEngine s)) = contextChanged (ldfQryCtxStale s)
   \<and> subjectChanged (ldfQryCtxStale (refreshLdfQryCtxEngine s)) = subjectChanged (ldfQryCtxStale s)
   \<and> pathFactory (gLdfQryCtx (refreshLdfQryCtxEngine s)) = pathFactory (gLdfQryCtx s)
   \<and> subjectPath (gLdfQryCtx (refreshLdfQryCtxEngine s)) = subjectPath (gLdfQryCtx s)"
  by (simp add: refreshLdfQryCtxEngine_def set_queryEngine_def contextChanged_def
      subjectChanged_def QC_STALE_SOURCE_CHANGED_def QC_STALE_CONTEXT_CHANGED_def
      QC_STALE_SUBJECT_CHANGED_def xor_source_keeps_context xor_source_keeps_subject)

text \<open>
  C1. The claim: the engine is rebuilt exactly when the source flag is set; with only
  the context flag set, \<open>refreshLdfQryCtx\<close> rebuilds the path factory and the subject
  path and not the engine. The code tests \<open>ldfQryCtxStale && QC_STALE_SOURCE_CHANGED\<close>,
  which is truthy for every non-zero staleness value: with only the context flag set
  and a context that parses, the engine is rebuilt first, then the other two slots,
  although the source flag is not set.
\<close>

theorem refreshLdfQryCtx_context_only_rebuilds_engine:
  assumes "ldfQryCtxStale s = QC_STALE_CONTEXT_CHANGED"
    and "JSON_parse env (context' s) = Inr contextObj"
  shows "\<exists>s'. refreshLdfQryCtx env s = Inr s'
    \<and> rebuilds s' = rebuilds s @ [EngineSlot, PathFactorySlot, SubjectPathSlot]
    \<and> queryEngine (gLdfQryCtx s') = Some (ComunicaEngine (source s))
    \<and> truthy (js_and (ldfQryCtxStale s) QC_STALE_SOURCE_CHANGED)
    \<and> \<not> sourceChanged (ldfQryCtxStale s)"
  using assms
  by (simp add: refreshLdfQryCtx_def set_queryEngine_def set_pathFactory_def set_subjectPath_def
      sourceChanged_def truthy_def js_and_def
      QC_STALE_SOURCE_CHANGED_def QC_STALE_CONTEXT_CHANGED_def QC_STALE_SUBJECT_CHANGED_def)

text \<open>
  A run that reaches such a state: the component is mounted on \<open>https://x/\<close>, the
  subjects are listed (which builds the engine), the user selects the second subject
  and then edits the context. The query that follows builds the engine again.
\<close>

theorem refreshLdfQryCtx_context_only_rebuilds_engine_witness:
  "ldfQryCtxStale
     (contextChangeHandler ''{}''
        (lstSubjectChangeHandler ''https://x/2''
           (getSourceSubjects (sample_env (from_list [''https://x/1'', ''https://x/2'']))
              (initial ''https://x/'' ''{}'' :: string state))))
     = QC_STALE_CONTEXT_CHANGED
   \<and> (\<exists>s'. refreshLdfQryCtx (sample_env (from_list [''https://x/1'', ''https://x/2'']))
          (contextChangeHandler ''{}''
            (lstSubjectChangeHandler ''https://x/2''
              (getSourceSubjects (sample_env (from_list [''https://x/1'', ''https://x/2'']))
                 (initial ''https://x/'' ''{}'' :: string state)))) = Inr s'
          \<and> rebuilds s' = [EngineSlot, EngineSlot, PathFactorySlot, SubjectPathSlot]
          \<and> queryEngine (gLdfQryCtx s') = Some (ComunicaEngine ''https://x/''))"
proof -
  let ?env = "sample_env (from_list [''https://x/1'', ''https://x/2''])"
  let ?s = "contextChangeHandler ''{}''
        (lstSubjectChangeHandler ''https://x/2''
           (getSourceSubjects ?env (initial ''https://x/'' ''{}'' :: string state)))"
  have stale: "ldfQryCtxStale ?s = QC_STALE_CONTEXT_CHANGED"
    by (simp add: contextChangeHandler_def)
  have parsed: "JSON_parse ?env (context' ?s) = Inr ''{}''"
    by (simp add: contextChangeHandler_def sample_env_def)
  have "rebuilds ?s = [EngineSlot]" and "source ?s = ''https://x/''"
    by (simp_all add: contextChangeHandler_def lstSubjectChangeHandler_def
        clearQueryResultAndStatus_def getSourceSubjects_def getSourceSubjects_run_def getSourceSubjects_try_def
        validateSource_def initial_def sample_env_def trim_def is_ws_def startsWith_def
        truthy_def js_and_def refreshLdfQryCtxEngine_def set_queryEngine_def
        QC_STALE_SOURCE_CHANGED_def Let_def)
  with refreshLdfQryCtx_context_only_rebuilds_engine [OF stale parsed] stale
  show ?thesis by auto
qed

text \<open>
  C3. The claim: for every staleness value \<open>refreshLdfQryCtxEngine\<close> rebuilds the engine
  slot only and clears the source flag only. The code guards the rebuild with
  \<open>ldfQryCtxStale && QC_STALE_SOURCE_CHANGED\<close> and then flips the source bit with
  \<open>^\<close>: when only the context flag is set, the engine is rebuilt and the source flag,
  which was clear, comes out set.
\<close>

theorem refreshLdfQryCtxEngine_sets_source_flag:
  assumes "ldfQryCtxStale s = QC_STALE_CONTEXT_CHANGED"
  shows "ldfQryCtxStale (refreshLdfQryCtxEngine s)
           = QC_STALE_SOURCE_CHANGED OR QC_STALE_CONTEXT_CHANGED
    \<and> \<not> sourceChanged (ldfQryCtxStale s)
    \<and> sourceChanged (ldfQryCtxStale (refreshLdfQryCtxEngine s))
    \<and> queryEngine (gLdfQryCtx (refreshLdfQryCtxEngine s)) = Some (ComunicaEngine (source s))
    \<and> rebuilds (refreshLdfQryCtxEngine s) = rebuilds s @ [EngineSlot]"
  using assms
  by (simp add: refreshLdfQryCtxEngine_def set_queryEngine_def sourceChanged_def truthy_def
      js_and_def QC_STALE_SOURCE_CHANGED_def QC_STALE_CONTEXT_CHANGED_def)

theorem refreshLdfQryCtxEngine_sets_source_flag_witness:
  "ldfQryCtxStale (contextChangeHandler ''{}'' (initial ''https://x/'' ''{}'' :: string state))
     = QC_STALE_CONTEXT_CHANGED
   \<and> ldfQryCtxStale (refreshLdfQryCtxEngine
         (contextChangeHandler ''{}'' (initial ''https://x/'' ''{}'' :: string state))) = 6
   \<and> rebuilds (refreshLdfQryCtxEngine
         (contextChangeHandler ''{}'' (initial ''https://x/'' ''{}'' :: string state)))
       = [EngineSlot]"
  using refreshLdfQryCtxEngine_sets_source_flag
    [of "contextChangeHandler ''{}'' (initial ''https://x/'' ''{}'' :: string state)"]
  by (simp add: contextChangeHandler_def clearQueryResultAndStatus_def initial_def
      QC_STALE_SOURCE_CHANGED_def QC_STALE_CONTEXT_CHANGED_def)

section \<open>Collected results\<close>

lemma first_occurrences_set: "set (first_occurrences xs) = set xs"
  by (induction xs) auto

lemma first_occurrences_distinct: "distinct (first_occurrences xs)"
  by (induction xs) (auto simp: first_occurrences_set distinct_removeAll)

lemma filter_removeAll_member:
  "x \<in> set data \<Longrightarrow>
     filter (\<lambda>y. y \<notin> set data) (removeAll x xs) = filter (\<lambda>y. y \<notin> set data) xs"
  by (auto simp: removeAll_filter_not_eq intro: filter_cong)

lemma filter_removeAll_fresh:
  "filter (\<lambda>y. y \<notin> set (data @ [x])) xs = filter (\<lambda>y. y \<notin> set data) (removeAll x xs)"
  by (auto simp: removeAll_filter_not_eq intro: filter_cong)

text \<open>
  The loop on any producer and any set to start from: it rethrows the producer's
  exception, and otherwise appends to the set the first occurrences of the strings
  that are not in it.
\<close>

lemma execQuery_collect_eq:
  "execQuery_collect ts data p =
     (case failure p of
        Some ex \<Rightarrow> Inl ex
      | None \<Rightarrow>
          Inr (data @ filter (\<lambda>y. y \<notin> set data) (first_occurrences (map ts (yielded p)))))"
proof (induction p arbitrary: data)
  case Done
  then show ?case by simp
next
  case (Yield v p)
  show ?case
  proof (cases "failure p")
    case None
    show ?thesis
    proof (cases "ts v \<in> set data")
      case True
      with None show ?thesis
        by (simp add: Yield.IH set_add_def filter_removeAll_member)
    next
      case False
      with None show ?thesis
        using filter_removeAll_fresh [of data "ts v"]
        by (simp add: Yield.IH set_add_def)
    qed
  next
    case (Some ex)
    then show ?thesis by (simp add: Yield.IH)
  qed
next
  case (Throw ex)
  then show ?case by simp
qed

lemma from_list_yields: "failure (from_list vs) = None \<and> yielded (from_list vs) = vs"
  by (induction vs) auto

text \<open>
  On every finite sequence of values the loop, started on the empty set, returns the
  first occurrences of their string forms.
\<close>

lemma execQuery_collect_from_list:
  "execQuery_collect ts [] (from_list vs) = Inr (first_occurrences (map ts vs))"
  by (simp add: execQuery_collect_eq from_list_yields)

text \<open>
  A \<open>try\<close> block of \<open>execQuery\<close> that completes leaves in \<open>queryResult\<close> the first
  occurrences of what the resolved subject path produced.
\<close>

lemma execQuery_try_queryResult:
  assumes "execQuery_try env s = Inr s'"
  shows "\<exists>p. subjectPath (gLdfQryCtx s') = Some p
    \<and> failure (resolve env p (ldfDataPath s)) = None
    \<and> queryResult s' =
        Some (first_occurrences (map (toString env) (yielded (resolve env p (ldfDataPath s)))))"
proof -
  obtain s1 where
    s1: "(if truthy (ldfQryCtxStale s) then refreshLdfQryCtx env s else Inr s) = Inr s1"
    using assms
    by (cases "if truthy (ldfQryCtxStale s) then refreshLdfQryCtx env s else Inr s")
      (simp_all add: execQuery_try_def split: prod.splits)
  obtain p where p: "subjectPath (gLdfQryCtx s1) = Some p"
    using assms s1 by (cases "subjectPath (gLdfQryCtx s1)") (simp_all add: execQuery_try_def)
  show ?thesis
  proof (cases "failure (resolve env p (ldfDataPath s))")
    case None
    with assms s1 p show ?thesis
      by (auto simp: execQuery_try_def execQuery_collect_eq)
  next
    case (Some ex)
    with assms s1 p show ?thesis
      by (simp add: execQuery_try_def execQuery_collect_eq)
  qed
qed

lemma execQuery_queryResult:
  assumes "execQuery_validate env s = None"
    and "execQuery_try env (clearQueryResultAndStatus s) = Inr s'"
  shows "\<exists>p. subjectPath (gLdfQryCtx (execQuery env s)) = Some p
    \<and> failure (resolve env p (ldfDataPath s)) = None
    \<and> queryResult (execQuery env s) =
        Some (first_occurrences (map (toString env) (yielded (resolve env p (ldfDataPath s)))))"
  using execQuery_try_queryResult [OF assms(2)] assms
  by (simp add: execQuery_def execQuery_run_def clearQueryResultAndStatus_def)

text \<open>
  On a stale context whose JSON-LD context parses, \<open>refreshLdfQryCtx\<close> returns and leaves
  the subject path created from the parsed context, a new engine on the source, and
  the selected subject; it does not touch the result or the status.
\<close>

lemma refreshLdfQryCtx_stale:
  assumes "truthy (ldfQryCtxStale s)" and "JSON_parse env (context' s) = Inr contextObj"
  shows "\<exists>s1. refreshLdfQryCtx env s = Inr s1
    \<and> subjectPath (gLdfQryCtx s1) =
        Some (create (PathFactory (Some contextObj) (Some (ComunicaEngine (source s))))
                (namedNode (ldfSubject s)))
    \<and> queryResult s1 = queryResult s \<and> status s1 = status s"
  using assms
  by (simp add: refreshLdfQryCtx_def Let_def set_queryEngine_def set_pathFactory_def
      set_subjectPath_def truthy_def js_and_def QC_STALE_SOURCE_CHANGED_def
      QC_STALE_CONTEXT_CHANGED_def QC_STALE_SUBJECT_CHANGED_def)

text \<open>
  C4. Take a query that passes validation, and let \<open>p\<close> be the subject path it
  resolves: the path that \<open>refreshLdfQryCtx\<close> builds when the context is stale, the one
  in the slot otherwise. For every finite sequence \<open>vs\<close> of values that resolving the
  data path on \<open>p\<close> produces, \<open>execQuery\<close> ends normally and sets \<open>queryResult\<close> to the
  distinct string forms of the values in the order of their first occurrence:
  \<open>A, B, A\<close> gives \<open>[A, B]\<close> and \<open>Alice, Alice\<close> gives \<open>[Alice]\<close>.
\<close>

theorem execQuery_returns_first_occurrences:
  assumes "execQuery_validate env s = None"
    and "JSON_parse env (context' s) = Inr contextObj"
    and "(if truthy (ldfQryCtxStale s)
          then Some (create (PathFactory (Some contextObj) (Some (ComunicaEngine (source s))))
                       (namedNode (ldfSubject s)))
          else subjectPath (gLdfQryCtx s)) = Some p"
    and "resolve env p (ldfDataPath s) = from_list vs"
  shows "queryResult (execQuery env s) = Some (first_occurrences (map (toString env) vs))
    \<and> status (execQuery env s) = None
    \<and> rejected (execQuery_run env s) = None
    \<and> distinct (first_occurrences (map (toString env) vs))
    \<and> set (first_occurrences (map (toString env) vs)) = toString env ` set vs
    \<and> first_occurrences [''A'', ''B'', ''A''] = [''A'', ''B'']
    \<and> first_occurrences [''Alice'', ''Alice''] = [''Alice'']"
proof -
  let ?s0 = "clearQueryResultAndStatus s"
  have "\<exists>s1. execQuery_try env ?s0 =
            Inr (s1\<lparr>queryResult := Some (first_occurrences (map (toString env) vs))\<rparr>)
          \<and> status s1 = None"
  proof (cases "truthy (ldfQryCtxStale s)")
    case True
    then have "truthy (ldfQryCtxStale ?s0)"
      and "JSON_parse env (context' ?s0) = Inr contextObj"
      using assms(2) by (simp_all add: clearQueryResultAndStatus_def)
    from refreshLdfQryCtx_stale [OF this]
    obtain s1 where "refreshLdfQryCtx env ?s0 = Inr s1"
      and "subjectPath (gLdfQryCtx s1) = Some p" and "status s1 = None"
      using True assms(3) by (auto simp: clearQueryResultAndStatus_def)
    with True assms(4) show ?thesis
      by (intro exI [of _ s1])
        (simp add: execQuery_try_def execQuery_collect_from_list clearQueryResultAndStatus_def)
  next
    case False
    with assms(3,4) show ?thesis
      by (intro exI [of _ ?s0])
        (simp add: execQuery_try_def execQuery_collect_from_list clearQueryResultAndStatus_def)
  qed
  then show ?thesis
    using assms(1)
    by (auto simp: execQuery_def execQuery_run_def first_occurrences_set
        first_occurrences_distinct)
qed

theorem execQuery_returns_first_occurrences_witness:
  "queryResult (execQuery (sample_env (from_list [''A'', ''B'', ''A'']))
      (lstSubjectChangeHandler ''https://x/1'' (initial ''https://x/'' ''{}'' :: string state)))
     = Some [''A'', ''B'']
   \<and> queryResult (execQuery (sample_env (from_list [''Alice'', ''Alice'']))
      (lstSubjectChangeHandler ''https://x/1'' (initial ''https://x/'' ''{}'' :: string state)))
     = Some [''Alice'']"
proof -
  let ?s = "lstSubjectChangeHandler ''https://x/1'' (initial ''https://x/'' ''{}'') :: string state"
  let ?p = "create (PathFactory (Some ''{}'') (Some (ComunicaEngine ''https://x/'')))
              (namedNode (Some ''https://x/1'')) :: string ldpath"
  have v: "execQuery_validate (sample_env out) ?s = None" for out
    by (simp add: execQuery_validate_def validateSource_def lstSubjectChangeHandler_def
        clearQueryResultAndStatus_def initial_def sample_env_def trim_def is_ws_def
        startsWith_def blank_def)
  have c: "JSON_parse (sample_env out) (context' ?s) = Inr ''{}''" for out
    by (simp add: lstSubjectChangeHandler_def clearQueryResultAndStatus_def initial_def
        sample_env_def)
  have p: "(if truthy (ldfQryCtxStale ?s)
          then Some (create (PathFactory (Some ''{}'') (Some (ComunicaEngine (source ?s))))
                       (namedNode (ldfSubject ?s)))
          else subjectPath (gLdfQryCtx ?s)) = Some ?p"
    by (simp add: lstSubjectChangeHandler_def clearQueryResultAndStatus_def initial_def
        truthy_def QC_STALE_SUBJECT_CHANGED_def)
  have r: "resolve (sample_env (from_list vs)) ?p (ldfDataPath ?s) = from_list vs" for vs
    by (simp add: sample_env_def)
  from execQuery_returns_first_occurrences [OF v c p r, of "[''A'', ''B'', ''A'']"]
    execQuery_returns_first_occurrences [OF v c p r, of "[''Alice'', ''Alice'']"]
  show ?thesis by (simp add: sample_env_def)
qed

section \<open>Validating the source\<close>

lemma trim_empty_iff: "trim str = [] \<longleftrightarrow> (\<forall>c \<in> set str. is_ws c)"
proof
  assume "trim str = []"
  then have "\<forall>c \<in> set (dropWhile is_ws str). is_ws c"
    by (simp add: trim_def dropWhile_eq_Nil_conv)
  then have "dropWhile is_ws str = []"
    using hd_dropWhile [of is_ws str] by (cases "dropWhile is_ws str") auto
  then show "\<forall>c \<in> set str. is_ws c"
    by (simp add: dropWhile_eq_Nil_conv)
next
  assume "\<forall>c \<in> set str. is_ws c"
  then have "dropWhile is_ws str = []"
    by (simp add: dropWhile_eq_Nil_conv)
  then show "trim str = []"
    by (simp add: trim_def del: dropWhile_eq_Nil_conv)
qed

text \<open>
  C10. \<open>validateSource\<close> fails for every source made of white space only (the empty
  string among them), for every source whose trimmed text the URL parser rejects, and
  for every source whose trimmed text parses to a URL of origin \<open>null\<close>; it succeeds in
  the remaining case only, and then returns the trimmed source.
\<close>

theorem validateSource_outcomes:
  "((\<forall>c \<in> set (source s). is_ws c) \<longrightarrow>
      validateSource env s = Inl (Error ''Invalid source URL: Empty string''))
   \<and> (\<forall>u. URL env (trim (source s)) = Inr u \<and> origin u = ''null'' \<longrightarrow>
          (\<exists>ex. validateSource env s = Inl ex))
   \<and> (\<forall>ex. URL env (trim (source s)) = Inl ex \<longrightarrow> (\<exists>ex'. validateSource env s = Inl ex'))
   \<and> (\<forall>r. validateSource env s = Inr r \<longleftrightarrow>
          r = trim (source s) \<and> r \<noteq> [] \<and> (\<exists>u. URL env r = Inr u \<and> origin u \<noteq> ''null''))"
proof (cases "trim (source s) = []")
  case True
  then show ?thesis
    by (auto simp: validateSource_def trim_empty_iff Error_def)
next
  case False
  then have ne: "source s \<noteq> []" and nws: "\<not> (\<forall>c \<in> set (source s). is_ws c)"
    by (auto simp: trim_empty_iff)
  show ?thesis
  proof (cases "URL env (trim (source s))")
    case (Inl ex)
    with False ne nws show ?thesis by (auto simp: validateSource_def Error_def)
  next
    case (Inr u)
    with False ne nws show ?thesis by (auto simp: validateSource_def Let_def Error_def)
  qed
qed

theorem validateSource_outcomes_witness:
  "validateSource (sample_env Done) (initial [CHR 0x20, CHR 0x09] ''{}'' :: string state)
     = Inl (Error ''Invalid source URL: Empty string'')
   \<and> (\<exists>ex. validateSource (sample_env Done) (initial '' urn:isbn:1 '' ''{}'' :: string state)
             = Inl ex)
   \<and> (\<exists>ex. validateSource (sample_env Done) (initial ''no url'' ''{}'' :: string state) = Inl ex)
   \<and> validateSource (sample_env Done) (initial '' https://x/ '' ''{}'' :: string state)
       = Inr ''https://x/''"
  using validateSource_outcomes
      [of "initial [CHR 0x20, CHR 0x09] ''{}'' :: string state" "sample_env Done"]
    validateSource_outcomes
      [of "initial '' urn:isbn:1 '' ''{}'' :: string state" "sample_env Done"]
    validateSource_outcomes [of "initial ''no url'' ''{}'' :: string state" "sample_env Done"]
    validateSource_outcomes
      [of "initial '' https://x/ '' ''{}'' :: string state" "sample_env Done"]
  by (simp add: initial_def sample_env_def trim_def is_ws_def startsWith_def)

section \<open>Marking the context stale\<close>

lemma on_changes_append: "on_changes (cs @ ds) s = on_changes ds (on_changes cs s)"
  by (induction cs arbitrary: s) auto

lemma on_change_stale: "ldfQryCtxStale (on_change c s) = own_flag c"
  by (cases c)
    (simp_all add: sourceChangeHandler_def contextChangeHandler_def lstSubjectChangeHandler_def)

lemma on_change_chain:
  "gLdfQryCtx (on_change c s) = gLdfQryCtx s \<and> rebuilds (on_change c s) = rebuilds s"
  by (cases c)
    (simp_all add: sourceChangeHandler_def contextChangeHandler_def lstSubjectChangeHandler_def
      clearLdfSubject_def clearQueryResultAndStatus_def)

lemma on_changes_chain:
  "gLdfQryCtx (on_changes cs s) = gLdfQryCtx s \<and> rebuilds (on_changes cs s) = rebuilds s"
  by (induction cs arbitrary: s) (simp_all add: on_change_chain)

text \<open>
  A change handler does not leave the other two flags as they were. After a change of
  the source the source flag is set; a change of the context that follows clears it,
  and nothing has been rebuilt.
\<close>

theorem contextChangeHandler_clears_source_flag:
  "sourceChanged (ldfQryCtxStale
      (on_changes [SourceChange ''https://y/''] (initial ''https://x/'' ''{}'' :: string state)))
   \<and> \<not> sourceChanged (ldfQryCtxStale
      (on_changes [SourceChange ''https://y/'', ContextChange ''{}'']
         (initial ''https://x/'' ''{}'' :: string state)))
   \<and> rebuilds (on_changes [SourceChange ''https://y/'', ContextChange ''{}'']
         (initial ''https://x/'' ''{}'' :: string state)) = []"
  by (simp add: sourceChanged_def sourceChangeHandler_def contextChangeHandler_def
      clearLdfSubject_def clearQueryResultAndStatus_def initial_def
      QC_STALE_SOURCE_CHANGED_def QC_STALE_CONTEXT_CHANGED_def)

text \<open>
  C2. The claim: each change handler sets its own flag and leaves the other two as
  they were, so that any subset of the flags can be set, and a flag is cleared only
  once what depends on it has been rebuilt. The code passes the handler's constant
  alone to \<open>setLdfQryCtxStale\<close>, where the constants are single bits that the rebuild
  tests with \<open>|\<close> masks and \<open>refreshLdfQryCtxEngine\<close> updates bit by bit with \<open>^\<close>. So
  each handler overwrites the value: its own flag is set and the other two are clear,
  whatever they were. After any non-empty sequence of input changes exactly one flag
  is set, that of the last change, and the handlers rebuild nothing: a flag that was
  set is lost without a rebuild.
\<close>

theorem change_handlers_overwrite_staleness:
  "flags (ldfQryCtxStale (sourceChangeHandler v s)) = (True, False, False)
   \<and> flags (ldfQryCtxStale (contextChangeHandler v s)) = (False, True, False)
   \<and> flags (ldfQryCtxStale (lstSubjectChangeHandler v s)) = (False, False, True)
   \<and> ldfQryCtxStale (on_changes (cs @ [c]) s) = own_flag c
   \<and> truthy (ldfQryCtxStale (on_changes (cs @ [c]) s))
   \<and> gLdfQryCtx (on_changes cs s) = gLdfQryCtx s
   \<and> rebuilds (on_changes cs s) = rebuilds s"
proof -
  have "truthy (own_flag c)"
    by (cases c) (simp_all add: truthy_def QC_STALE_SOURCE_CHANGED_def
        QC_STALE_CONTEXT_CHANGED_def QC_STALE_SUBJECT_CHANGED_def)
  then show ?thesis
    by (simp add: flags_def sourceChanged_def contextChanged_def subjectChanged_def
        sourceChangeHandler_def contextChangeHandler_def lstSubjectChangeHandler_def
        QC_STALE_SOURCE_CHANGED_def QC_STALE_CONTEXT_CHANGED_def QC_STALE_SUBJECT_CHANGED_def
        on_changes_append on_change_stale on_changes_chain)
qed

text \<open>
  On a component that has just been mounted the source flag is set and no engine has
  been built; an edit of the context leaves the context flag alone.
\<close>

theorem change_handlers_overwrite_staleness_witness:
  "flags (ldfQryCtxStale (initial ''https://x/'' ''{}'' :: string state)) = (True, False, False)
   \<and> flags (ldfQryCtxStale (contextChangeHandler ''{}''
       (initial ''https://x/'' ''{}'' :: string state)))
     = (False, True, False)
   \<and> queryEngine (gLdfQryCtx (contextChangeHandler ''{}''
       (initial ''https://x/'' ''{}'' :: string state))) = None
   \<and> ldfQryCtxStale (on_changes [SourceChange ''https://y/'', SubjectChange ''https://y/1'']
        (initial ''https://x/'' ''{}'' :: string state)) = QC_STALE_SUBJECT_CHANGED"
  using change_handlers_overwrite_staleness
      [of "''{}''" "initial ''https://x/'' ''{}'' :: string state" "[ContextChange ''{}'']"]
    change_handlers_overwrite_staleness
      [of _ "initial ''https://x/'' ''{}'' :: string state" "[SourceChange ''https://y/'']"
        "SubjectChange ''https://y/1''"]
  by (simp add: initial_def flags_def sourceChanged_def contextChanged_def subjectChanged_def
      QC_STALE_SOURCE_CHANGED_def QC_STALE_CONTEXT_CHANGED_def QC_STALE_SUBJECT_CHANGED_def)

section \<open>Failures of a query\<close>

text \<open>
  C5. A query whose subject is \<open>null\<close>, empty or white space only fails in validation:
  the status is the message of the source check when the source is invalid too, and
  \<open>Invalid subject URI: No subject selected.\<close> otherwise. Only the result and the
  status change: the slots, the staleness value and the log of rebuilds are as before.
\<close>

theorem execQuery_blank_subject:
  assumes "blank (ldfSubject s)"
  shows "execQuery env s =
           s\<lparr>queryResult := None,
             status := Some (case validateSource env s of
                               Inl ex \<Rightarrow> message ex
                             | Inr src \<Rightarrow> ''Invalid subject URI: No subject selected.'')\<rparr>
     \<and> gLdfQryCtx (execQuery env s) = gLdfQryCtx s
     \<and> ldfQryCtxStale (execQuery env s) = ldfQryCtxStale s
     \<and> rebuilds (execQuery env s) = rebuilds s"
  using assms
  by (simp add: execQuery_def execQuery_run_def execQuery_validate_def
      clearQueryResultAndStatus_def Error_def split: sum.splits)

theorem execQuery_blank_subject_witness:
  "blank (ldfSubject (initial ''https://x/'' ''{}'' :: string state))
   \<and> blank (ldfSubject (lstSubjectChangeHandler [CHR 0x20, CHR 0x09]
              (initial ''https://x/'' ''{}'' :: string state)))
   \<and> status (execQuery (sample_env Done) (initial ''https://x/'' ''{}''))
       = Some ''Invalid subject URI: No subject selected.''
   \<and> rebuilds (execQuery (sample_env Done) (initial ''https://x/'' ''{}'')) = []
   \<and> status (execQuery (sample_env Done)
         (lstSubjectChangeHandler [CHR 0x20, CHR 0x09] (initial ''https://x/'' ''{}'')))
       = Some ''Invalid subject URI: No subject selected.''
   \<and> rebuilds (execQuery (sample_env Done)
         (lstSubjectChangeHandler [CHR 0x20, CHR 0x09] (initial ''https://x/'' ''{}''))) = []"
  using execQuery_blank_subject [of "initial ''https://x/'' ''{}'' :: string state" "sample_env Done"]
    execQuery_blank_subject [of "lstSubjectChangeHandler [CHR 0x20, CHR 0x09]
              (initial ''https://x/'' ''{}'' :: string state)" "sample_env Done"]
  by (simp add: blank_def lstSubjectChangeHandler_def clearQueryResultAndStatus_def initial_def
      validateSource_def sample_env_def trim_def is_ws_def startsWith_def)

lemma refreshLdfQryCtx_inputs:
  assumes "refreshLdfQryCtx env s = Inr s1"
  shows "ldfQryCtxStale s1 = QC_VALID \<and> source s1 = source s \<and> context' s1 = context' s
    \<and> ldfSubject s1 = ldfSubject s \<and> ldfDataPath s1 = ldfDataPath s"
  using assms
  by (auto simp: refreshLdfQryCtx_def Let_def set_queryEngine_def set_pathFactory_def
      set_subjectPath_def split: if_splits sum.splits option.splits)

lemma refreshLdfQryCtx_valid:
  assumes "ldfQryCtxStale s = QC_VALID"
  shows "refreshLdfQryCtx env s = Inr s"
  using assms
  by (simp add: refreshLdfQryCtx_def Let_def truthy_def js_and_def QC_VALID_def)

text \<open>
  C8. After a call of \<open>refreshLdfQryCtx\<close> that returned, with source, context and
  subject as that call left them (it does not change them), a second call returns the
  very state it was given: no slot is assigned and the log of rebuilds does not grow.
  The same holds behind the guard \<open>if (ldfQryCtxStale)\<close> of \<open>execQuery\<close>.
\<close>

theorem refreshLdfQryCtx_idempotent:
  assumes "refreshLdfQryCtx env s = Inr s1"
  shows "refreshLdfQryCtx env s1 = Inr s1
    \<and> (if truthy (ldfQryCtxStale s1) then refreshLdfQryCtx env s1 else Inr s1) = Inr s1
    \<and> source s1 = source s \<and> context' s1 = context' s \<and> ldfSubject s1 = ldfSubject s"
  using refreshLdfQryCtx_inputs [OF assms]
  by (simp add: refreshLdfQryCtx_valid)

theorem refreshLdfQryCtx_idempotent_witness:
  "\<exists>s1. refreshLdfQryCtx (sample_env Done)
            (lstSubjectChangeHandler ''https://x/1'' (initial ''https://x/'' ''{}'')) = Inr s1
     \<and> rebuilds s1 = [EngineSlot, PathFactorySlot, SubjectPathSlot]
     \<and> refreshLdfQryCtx (sample_env Done) s1 = Inr s1"
proof -
  let ?s = "lstSubjectChangeHandler ''https://x/1'' (initial ''https://x/'' ''{}'') :: string state"
  have "\<exists>s1. refreshLdfQryCtx (sample_env Done) ?s = Inr s1
          \<and> rebuilds s1 = [EngineSlot, PathFactorySlot, SubjectPathSlot]"
    by (simp add: refreshLdfQryCtx_def lstSubjectChangeHandler_def clearQueryResultAndStatus_def
        initial_def sample_env_def set_queryEngine_def set_pathFactory_def set_subjectPath_def
        truthy_def js_and_def QC_STALE_SOURCE_CHANGED_def QC_STALE_CONTEXT_CHANGED_def
        QC_STALE_SUBJECT_CHANGED_def)
  then obtain s1 where s1: "refreshLdfQryCtx (sample_env Done) ?s = Inr s1"
    and r: "rebuilds s1 = [EngineSlot, PathFactorySlot, SubjectPathSlot]"
    by blast
  from refreshLdfQryCtx_idempotent [OF s1] s1 r show ?thesis by simp
qed

lemma refreshLdfQryCtx_parsed:
  assumes "JSON_parse env (context' s) = Inr contextObj"
  shows "\<exists>s1. refreshLdfQryCtx env s = Inr s1"
  using assms
  by (simp add: refreshLdfQryCtx_def Let_def set_queryEngine_def set_pathFactory_def
      truthy_def js_and_def QC_STALE_SOURCE_CHANGED_def QC_STALE_CONTEXT_CHANGED_def
      QC_STALE_SUBJECT_CHANGED_def)

lemma execQuery_validate_parsed:
  assumes "execQuery_validate env s = None"
  shows "\<exists>contextObj. JSON_parse env (context' s) = Inr contextObj"
  using assms
  by (auto simp: execQuery_validate_def split: sum.splits if_splits)

text \<open>A query on a context that is not stale assigns no slot, whatever its outcome.\<close>

lemma execQuery_valid_keeps_chain:
  assumes "ldfQryCtxStale s = QC_VALID"
  shows "gLdfQryCtx (execQuery env s) = gLdfQryCtx s \<and> rebuilds (execQuery env s) = rebuilds s
    \<and> ldfQryCtxStale (execQuery env s) = QC_VALID"
  using assms
  by (auto simp: execQuery_def execQuery_run_def execQuery_try_def Let_def
      clearQueryResultAndStatus_def truthy_def QC_VALID_def
      split: option.splits sum.splits prod.splits)

lemma execQuery_try_failure_valid:
  assumes "JSON_parse env (context' s) = Inr contextObj"
    and "execQuery_try env s = Inl (ex, sf)"
  shows "ldfQryCtxStale sf = QC_VALID"
proof (cases "truthy (ldfQryCtxStale s)")
  case True
  from refreshLdfQryCtx_parsed [OF assms(1)]
  obtain s1 where s1: "refreshLdfQryCtx env s = Inr s1"
    by blast
  with True assms(2) have "sf = s1"
    by (auto simp: execQuery_try_def split: option.splits sum.splits)
  with refreshLdfQryCtx_inputs [OF s1] show ?thesis by simp
next
  case False
  with assms(2) have "sf = s"
    by (auto simp: execQuery_try_def split: option.splits sum.splits)
  with False show ?thesis by (simp add: truthy_def QC_VALID_def)
qed

lemma execQuery_try_success_valid:
  assumes "execQuery_try env s = Inr s'"
  shows "ldfQryCtxStale s' = QC_VALID"
proof (cases "truthy (ldfQryCtxStale s)")
  case True
  with assms obtain s1 where s1: "refreshLdfQryCtx env s = Inr s1"
    by (cases "refreshLdfQryCtx env s") (simp_all add: execQuery_try_def split: prod.splits)
  with True assms have "ldfQryCtxStale s' = ldfQryCtxStale s1"
    by (auto simp: execQuery_try_def split: option.splits sum.splits)
  with refreshLdfQryCtx_inputs [OF s1] show ?thesis by simp
next
  case False
  with assms have "ldfQryCtxStale s' = ldfQryCtxStale s"
    by (auto simp: execQuery_try_def split: option.splits sum.splits)
  with False show ?thesis by (simp add: truthy_def QC_VALID_def)
qed

text \<open>
  Every query that passes validation ends with the staleness value \<open>QC_VALID\<close>, so
  running it again assigns no slot.
\<close>

lemma execQuery_validated_is_valid:
  assumes "execQuery_validate env s = None"
  shows "ldfQryCtxStale (execQuery env s) = QC_VALID
    \<and> rebuilds (execQuery env (execQuery env s)) = rebuilds (execQuery env s)
    \<and> gLdfQryCtx (execQuery env (execQuery env s)) = gLdfQryCtx (execQuery env s)"
proof -
  from execQuery_validate_parsed [OF assms]
  obtain contextObj
    where p: "JSON_parse env (context' (clearQueryResultAndStatus s)) = Inr contextObj"
    by (auto simp: clearQueryResultAndStatus_def)
  have "ldfQryCtxStale (execQuery env s) = QC_VALID"
  proof (cases "execQuery_try env (clearQueryResultAndStatus s)")
    case (Inl a)
    then obtain ex sf where "execQuery_try env (clearQueryResultAndStatus s) = Inl (ex, sf)"
      by (cases a) simp
    with execQuery_try_failure_valid [OF p this] assms show ?thesis
      by (simp add: execQuery_def execQuery_run_def split: sum.splits)
  next
    case (Inr s')
    with execQuery_try_success_valid [OF this] assms show ?thesis
      by (simp add: execQuery_def execQuery_run_def)
  qed
  with execQuery_valid_keeps_chain [OF this, of env] show ?thesis by simp
qed

text \<open>
  C9. When a query has passed validation and its \<open>try\<close> block throws the value \<open>t\<close> in
  the state \<open>sf\<close> (the loop over the resolved path throws, or there is no subject path
  to resolve), \<open>execQuery\<close> leaves the staleness value, the slots and the log of rebuilds
  as they are in \<open>sf\<close>. The rebuild, when one was due, came before the throw, so the
  value is \<open>QC_VALID\<close>; running the query again assigns no slot. The status becomes
  \<open>Query execution failed: \<close> followed by the string form of \<open>t\<close>, for an \<open>Error\<close> object
  its \<open>toString\<close>; when \<open>t\<close> is \<open>null\<close> or \<open>undefined\<close>, taking the string form throws
  and that exception leaves the operation instead.
\<close>

theorem execQuery_failure_keeps_staleness:
  assumes "execQuery_validate env s = None"
    and "execQuery_try env (clearQueryResultAndStatus s) = Inl (t, sf)"
  shows "ldfQryCtxStale (execQuery env s) = ldfQryCtxStale sf
    \<and> gLdfQryCtx (execQuery env s) = gLdfQryCtx sf
    \<and> rebuilds (execQuery env s) = rebuilds sf
    \<and> (\<forall>ex. t = ThrownError ex \<longrightarrow>
          status (execQuery env s) = Some (''Query execution failed: '' @ error_toString ex))
    \<and> (case thrown_toString t of
          Inr str \<Rightarrow> status (execQuery env s) = Some (''Query execution failed: '' @ str)
                     \<and> rejected (execQuery_run env s) = None
        | Inl err \<Rightarrow> rejected (execQuery_run env s) = Some err)
    \<and> ldfQryCtxStale (execQuery env s) = QC_VALID
    \<and> gLdfQryCtx (execQuery env (execQuery env s)) = gLdfQryCtx (execQuery env s)
    \<and> rebuilds (execQuery env (execQuery env s)) = rebuilds (execQuery env s)"
proof -
  from execQuery_validate_parsed [OF assms(1)]
  obtain contextObj
    where "JSON_parse env (context' (clearQueryResultAndStatus s)) = Inr contextObj"
    by (auto simp: clearQueryResultAndStatus_def)
  from execQuery_try_failure_valid [OF this assms(2)]
  have sf: "ldfQryCtxStale sf = QC_VALID" .
  have r: "execQuery_run env s =
      (case thrown_toString t of
         Inl err \<Rightarrow> Completion (Some err) (sf\<lparr>responsePending := False\<rparr>)
       | Inr str \<Rightarrow>
           Completion None
             (sf\<lparr>status := Some (''Query execution failed: '' @ str),
                 responsePending := False\<rparr>))"
    using assms by (simp add: execQuery_run_def)
  have frame: "ldfQryCtxStale (execQuery env s) = ldfQryCtxStale sf
    \<and> gLdfQryCtx (execQuery env s) = gLdfQryCtx sf
    \<and> rebuilds (execQuery env s) = rebuilds sf"
    by (cases "thrown_toString t") (simp_all add: execQuery_def r)
  have report: "case thrown_toString t of
          Inr str \<Rightarrow> status (execQuery env s) = Some (''Query execution failed: '' @ str)
                     \<and> rejected (execQuery_run env s) = None
        | Inl err \<Rightarrow> rejected (execQuery_run env s) = Some err"
    by (cases "thrown_toString t") (simp_all add: execQuery_def r)
  then have object: "\<forall>ex. t = ThrownError ex \<longrightarrow>
          status (execQuery env s) = Some (''Query execution failed: '' @ error_toString ex)"
    by auto
  from frame sf have "ldfQryCtxStale (execQuery env s) = QC_VALID" by simp
  from execQuery_valid_keeps_chain [OF this, of env] frame report object sf
  show ?thesis by simp
qed

theorem execQuery_failure_keeps_staleness_witness:
  "execQuery_validate (sample_env (Yield ''A'' (Throw (ThrownError (Error ''rejected'')))))
      (lstSubjectChangeHandler ''https://x/1'' (initial ''https://x/'' ''{}'' :: string state))
     = None
   \<and> status (execQuery (sample_env (Yield ''A'' (Throw (ThrownError (Error ''rejected'')))))
        (lstSubjectChangeHandler ''https://x/1'' (initial ''https://x/'' ''{}'' :: string state)))
      = Some ''Query execution failed: Error: rejected''
   \<and> ldfQryCtxStale
        (execQuery (sample_env (Yield ''A'' (Throw (ThrownError (Error ''rejected'')))))
        (lstSubjectChangeHandler ''https://x/1'' (initial ''https://x/'' ''{}'' :: string state)))
      = QC_VALID
   \<and> rebuilds (execQuery (sample_env (Yield ''A'' (Throw (ThrownError (Error ''rejected'')))))
        (lstSubjectChangeHandler ''https://x/1'' (initial ''https://x/'' ''{}'' :: string state)))
      = [EngineSlot, PathFactorySlot, SubjectPathSlot]
   \<and> rebuilds (execQuery (sample_env (Yield ''A'' (Throw (ThrownError (Error ''rejected'')))))
        (execQuery (sample_env (Yield ''A'' (Throw (ThrownError (Error ''rejected'')))))
          (lstSubjectChangeHandler ''https://x/1''
             (initial ''https://x/'' ''{}'' :: string state))))
      = [EngineSlot, PathFactorySlot, SubjectPathSlot]"
proof -
  let ?env = "sample_env (Yield ''A'' (Throw (ThrownError (Error ''rejected''))))"
  let ?s = "lstSubjectChangeHandler ''https://x/1'' (initial ''https://x/'' ''{}'') :: string state"
  have v: "execQuery_validate ?env ?s = None"
    by (simp add: execQuery_validate_def validateSource_def lstSubjectChangeHandler_def
        clearQueryResultAndStatus_def initial_def sample_env_def trim_def is_ws_def
        startsWith_def blank_def)
  have "\<exists>sf. execQuery_try ?env (clearQueryResultAndStatus ?s)
               = Inl (ThrownError (Error ''rejected''), sf)
          \<and> rebuilds sf = [EngineSlot, PathFactorySlot, SubjectPathSlot]"
    by (simp add: execQuery_try_def refreshLdfQryCtx_def lstSubjectChangeHandler_def
        clearQueryResultAndStatus_def initial_def sample_env_def set_queryEngine_def
        set_pathFactory_def set_subjectPath_def truthy_def js_and_def set_add_def
        QC_STALE_SOURCE_CHANGED_def QC_STALE_CONTEXT_CHANGED_def QC_STALE_SUBJECT_CHANGED_def)
  then obtain sf where
    t: "execQuery_try ?env (clearQueryResultAndStatus ?s)
          = Inl (ThrownError (Error ''rejected''), sf)"
    and r: "rebuilds sf = [EngineSlot, PathFactorySlot, SubjectPathSlot]"
    by blast
  have m: "error_toString (Error ''rejected'') = ''Error: rejected''"
    by (simp add: error_toString_def Error_def)
  from execQuery_failure_keeps_staleness [OF v t] have
    "status (execQuery ?env ?s)
       = Some (''Query execution failed: '' @ error_toString (Error ''rejected''))"
    and "ldfQryCtxStale (execQuery ?env ?s) = QC_VALID"
    and "rebuilds (execQuery ?env ?s) = rebuilds sf"
    and "rebuilds (execQuery ?env (execQuery ?env ?s)) = rebuilds (execQuery ?env ?s)"
    by blast+
  with v r m show ?thesis by simp
qed

section \<open>Enumerations\<close>

lemma getSourceSubjects_loop_eq:
  "getSourceSubjects_loop ts subs p =
     (failure p, subs @ filter (\<lambda>u. startsWith u ''http'') (map ts (yielded p)))"
  by (induction p arbitrary: subs) (simp_all add: Let_def)

lemma getSubjectProperties_loop_eq:
  "getSubjectProperties_loop ts props p = (failure p, props @ map ts (yielded p))"
  by (induction p arbitrary: props) (simp_all add: Let_def)

lemma refreshed_grSubjects:
  "grSubjects (if truthy (ldfQryCtxStale s) then refreshLdfQryCtxEngine s else s) = grSubjects s"
  by (simp add: refreshLdfQryCtxEngine_def set_queryEngine_def)

lemma validateSource_cleared:
  "validateSource env ((clearQueryResultAndStatus s)\<lparr>grSubjects := subs\<rparr>) = validateSource env s"
  by (simp add: validateSource_def clearQueryResultAndStatus_def)

lemma getSourceSubjects_srcPath_cleared:
  "getSourceSubjects_srcPath ((clearQueryResultAndStatus s)\<lparr>grSubjects := subs\<rparr>) src
     = getSourceSubjects_srcPath s src"
  by (simp add: getSourceSubjects_srcPath_def clearQueryResultAndStatus_def
      refreshLdfQryCtxEngine_def set_queryEngine_def)

text \<open>
  The \<open>try\<close> block of \<open>getSourceSubjects\<close> throws exactly when the source is invalid or
  the producer of subjects throws.
\<close>

lemma getSourceSubjects_try_fails_iff:
  "(\<exists>ex s1. getSourceSubjects_try env s = Inl (ex, s1)) \<longleftrightarrow>
     (case validateSource env s of
        Inl ex \<Rightarrow> True
      | Inr src \<Rightarrow> failure (subjects env (getSourceSubjects_srcPath s src)) \<noteq> None)"
proof (cases "validateSource env s")
  case (Inl ex)
  then show ?thesis by (simp add: getSourceSubjects_try_def)
next
  case (Inr src)
  show ?thesis
  proof (cases "failure (subjects env (getSourceSubjects_srcPath s src))")
    case None
    then show ?thesis
      unfolding getSourceSubjects_try_def Inr getSourceSubjects_srcPath_def
      by (simp add: Let_def getSourceSubjects_loop_eq del: if_split)
  next
    case (Some ex)
    then show ?thesis
      unfolding getSourceSubjects_try_def Inr getSourceSubjects_srcPath_def
      by (simp add: Let_def getSourceSubjects_loop_eq del: if_split)
  qed
qed

lemma getSourceSubjects_try_grSubjects:
  assumes "validateSource env s = Inr src"
  shows "(case getSourceSubjects_try env s of
            Inl (ex, s1) \<Rightarrow> grSubjects s1
          | Inr s1 \<Rightarrow> grSubjects s1) =
     grSubjects s @ filter (\<lambda>u. startsWith u ''http'')
       (map (toString env) (yielded (subjects env (getSourceSubjects_srcPath s src))))"
proof (cases "failure (subjects env (getSourceSubjects_srcPath s src))")
  case None
  then show ?thesis
    unfolding getSourceSubjects_try_def assms getSourceSubjects_srcPath_def
    by (simp add: Let_def getSourceSubjects_loop_eq refreshed_grSubjects del: if_split)
next
  case (Some ex)
  then show ?thesis
    unfolding getSourceSubjects_try_def assms getSourceSubjects_srcPath_def
    by (simp add: Let_def getSourceSubjects_loop_eq refreshed_grSubjects del: if_split)
qed

lemma getSourceSubjects_grSubjects_try:
  "grSubjects (getSourceSubjects env s) =
     (case getSourceSubjects_try env ((clearQueryResultAndStatus s)\<lparr>grSubjects := []\<rparr>) of
        Inl (ex, s1) \<Rightarrow> grSubjects s1
      | Inr s1 \<Rightarrow> grSubjects s1)"
  by (simp add: getSourceSubjects_def getSourceSubjects_run_def split: sum.splits prod.splits)

lemma getSubjectProperties_grSubjectProperties:
  assumes "\<not> blank (ldfSubject s)" and "queryEngine (gLdfQryCtx s) \<noteq> None"
  shows "grSubjectProperties (getSubjectProperties env s) =
     map (toString env) (yielded (properties env
        (create (PathFactory None (queryEngine (gLdfQryCtx s))) (namedNode (ldfSubject s)))))"
proof (cases "failure (properties env
        (create (PathFactory None (queryEngine (gLdfQryCtx s))) (namedNode (ldfSubject s))))")
  case None
  with assms show ?thesis
    by (auto simp: getSubjectProperties_def getSubjectProperties_run_def
        getSubjectProperties_try_def Let_def getSubjectProperties_loop_eq split: sum.splits)
next
  case (Some ex)
  with assms show ?thesis
    by (auto simp: getSubjectProperties_def getSubjectProperties_run_def
        getSubjectProperties_try_def Let_def getSubjectProperties_loop_eq split: sum.splits)
qed

text \<open>
  A call of \<open>getSourceSubjects\<close> is rejected exactly when its \<open>try\<close> block throws \<open>null\<close>
  or \<open>undefined\<close>.
\<close>

lemma getSourceSubjects_rejected_iff:
  "rejected (getSourceSubjects_run env s) \<noteq> None \<longleftrightarrow>
     (\<exists>t s1. getSourceSubjects_try env ((clearQueryResultAndStatus s)\<lparr>grSubjects := []\<rparr>)
                = Inl (t, s1) \<and> (t = ThrownNull \<or> t = ThrownUndefined))"
proof (cases "getSourceSubjects_try env ((clearQueryResultAndStatus s)\<lparr>grSubjects := []\<rparr>)")
  case (Inl a)
  obtain t s1 where a: "a = (t, s1)" by (cases a)
  show ?thesis
    by (cases t) (simp_all add: getSourceSubjects_run_def Inl a)
next
  case (Inr s1)
  then show ?thesis by (simp add: getSourceSubjects_run_def)
qed

text \<open>
  C6, as stated, fails: the subjects have been listed and the first one is selected;
  listing them again, the producer rejects with \<open>null\<close>. Reading \<open>ex.message\<close> in the
  handler throws a \<open>TypeError\<close>, which leaves the operation; the source flag is not
  set and the subject is still selected.
\<close>

theorem getSourceSubjects_thrown_null_escapes:
  "(\<exists>s1. getSourceSubjects_try (sample_env (Throw ThrownNull))
           ((clearQueryResultAndStatus
               (getSourceSubjects (sample_env (from_list [''https://x/1'']))
                  (initial ''https://x/'' ''{}'' :: string state)))\<lparr>grSubjects := []\<rparr>)
         = Inl (ThrownNull, s1))
   \<and> rejected (getSourceSubjects_run (sample_env (Throw ThrownNull))
        (getSourceSubjects (sample_env (from_list [''https://x/1'']))
           (initial ''https://x/'' ''{}'' :: string state)))
      = Some (TypeError_null ''message'')
   \<and> \<not> sourceChanged (ldfQryCtxStale
        (getSourceSubjects (sample_env (Throw ThrownNull))
           (getSourceSubjects (sample_env (from_list [''https://x/1'']))
              (initial ''https://x/'' ''{}'' :: string state))))
   \<and> ldfSubject
        (getSourceSubjects (sample_env (Throw ThrownNull))
           (getSourceSubjects (sample_env (from_list [''https://x/1'']))
              (initial ''https://x/'' ''{}'' :: string state)))
      = Some ''https://x/1''"
  by (simp add: getSourceSubjects_def getSourceSubjects_run_def getSourceSubjects_try_def
      validateSource_def clearQueryResultAndStatus_def initial_def sample_env_def trim_def
      is_ws_def startsWith_def truthy_def js_and_def refreshLdfQryCtxEngine_def
      set_queryEngine_def sourceChanged_def QC_STALE_SOURCE_CHANGED_def Let_def)

text \<open>
  C6, amended. When the \<open>try\<close> block of \<open>getSourceSubjects\<close> throws, at whatever point,
  a value \<open>t\<close> other than \<open>null\<close> and \<open>undefined\<close> (every \<open>Error\<close> object is one), no
  exception leaves the operation, and it ends with the staleness value
  \<open>QC_STALE_SOURCE_CHANGED\<close> (the source flag set), no selected subject, the pending
  indicator off and, for an \<open>Error\<close> object, its message as status.
\<close>

theorem getSourceSubjects_failure_remarks_source:
  assumes "getSourceSubjects_try env ((clearQueryResultAndStatus s)\<lparr>grSubjects := []\<rparr>)
             = Inl (t, s1)"
    and "t \<noteq> ThrownNull" and "t \<noteq> ThrownUndefined"
  shows "rejected (getSourceSubjects_run env s) = None
    \<and> ldfQryCtxStale (getSourceSubjects env s) = QC_STALE_SOURCE_CHANGED
    \<and> sourceChanged (ldfQryCtxStale (getSourceSubjects env s))
    \<and> ldfSubject (getSourceSubjects env s) = None
    \<and> (\<forall>ex. t = ThrownError ex \<longrightarrow> status (getSourceSubjects env s) = Some (message ex))
    \<and> \<not> responsePending (getSourceSubjects env s)"
  using assms
  by (cases t)
    (simp_all add: getSourceSubjects_def getSourceSubjects_run_def sourceChanged_def
      QC_STALE_SOURCE_CHANGED_def)

theorem getSourceSubjects_failure_remarks_source_witness:
  "rejected (getSourceSubjects_run
       (sample_env (Yield ''https://x/1'' (Throw (ThrownError (Error ''Not found'')))))
       (lstSubjectChangeHandler ''https://x/1'' (initial ''https://x/'' ''{}'' :: string state)))
     = None
   \<and> ldfQryCtxStale (getSourceSubjects
       (sample_env (Yield ''https://x/1'' (Throw (ThrownError (Error ''Not found'')))))
       (lstSubjectChangeHandler ''https://x/1'' (initial ''https://x/'' ''{}'' :: string state)))
     = QC_STALE_SOURCE_CHANGED
   \<and> ldfSubject (getSourceSubjects
       (sample_env (Yield ''https://x/1'' (Throw (ThrownError (Error ''Not found'')))))
       (lstSubjectChangeHandler ''https://x/1'' (initial ''https://x/'' ''{}'' :: string state)))
     = None
   \<and> status (getSourceSubjects
       (sample_env (Yield ''https://x/1'' (Throw (ThrownError (Error ''Not found'')))))
       (lstSubjectChangeHandler ''https://x/1'' (initial ''https://x/'' ''{}'' :: string state)))
     = Some ''Not found''"
proof -
  let ?env = "sample_env (Yield ''https://x/1'' (Throw (ThrownError (Error ''Not found''))))"
  let ?s = "lstSubjectChangeHandler ''https://x/1'' (initial ''https://x/'' ''{}'') :: string state"
  have "\<exists>s1. getSourceSubjects_try ?env ((clearQueryResultAndStatus ?s)\<lparr>grSubjects := []\<rparr>)
          = Inl (ThrownError (Error ''Not found''), s1)"
    by (simp add: getSourceSubjects_try_def validateSource_def lstSubjectChangeHandler_def
        clearQueryResultAndStatus_def initial_def sample_env_def trim_def is_ws_def
        startsWith_def Let_def)
  then obtain s1 where
    "getSourceSubjects_try ?env ((clearQueryResultAndStatus ?s)\<lparr>grSubjects := []\<rparr>)
       = Inl (ThrownError (Error ''Not found''), s1)"
    by blast
  from getSourceSubjects_failure_remarks_source [OF this] show ?thesis
    by (simp add: Error_def)
qed

text \<open>
  C7, as stated, fails: the filter of \<open>getSourceSubjects\<close> asks whether the identifier
  starts with the four characters \<open>http\<close>, so it keeps \<open>httpx://y/1\<close>, which has neither
  the scheme \<open>http\<close> nor the scheme \<open>https\<close>.
\<close>

theorem getSourceSubjects_keeps_other_scheme:
  "grSubjects (getSourceSubjects (sample_env (from_list [''httpx://y/1'', ''_:b0'']))
       (initial ''https://x/'' ''{}'' :: string state)) = [''httpx://y/1'']
   \<and> filter has_http_scheme [''httpx://y/1'', ''_:b0''] = []"
  by (simp add: getSourceSubjects_def getSourceSubjects_run_def getSourceSubjects_try_def validateSource_def
      clearQueryResultAndStatus_def initial_def sample_env_def trim_def is_ws_def startsWith_def
      has_http_scheme_def truthy_def refreshLdfQryCtxEngine_def set_queryEngine_def js_and_def
      QC_STALE_SOURCE_CHANGED_def create_def Let_def)

text \<open>
  C7, amended. For a valid source, \<open>getSourceSubjects\<close> leaves in \<open>grSubjects\<close>, in
  order, exactly the produced identifiers whose string form starts with the characters
  \<open>http\<close>; every identifier with the scheme \<open>http\<close> or \<open>https\<close> is among them, and blank
  nodes are not. \<open>getSubjectProperties\<close>, given a subject and an engine, leaves in
  \<open>grSubjectProperties\<close> the string forms of all produced identifiers, in order.
\<close>

theorem enumerations_filter:
  "(validateSource env s = Inr src \<longrightarrow>
      grSubjects (getSourceSubjects env s) =
        filter (\<lambda>u. startsWith u ''http'')
          (map (toString env) (yielded (subjects env (getSourceSubjects_srcPath s src)))))
   \<and> (\<not> blank (ldfSubject s) \<and> queryEngine (gLdfQryCtx s) \<noteq> None \<longrightarrow>
      grSubjectProperties (getSubjectProperties env s) =
        map (toString env) (yielded (properties env
          (create (PathFactory None (queryEngine (gLdfQryCtx s))) (namedNode (ldfSubject s))))))
   \<and> (has_http_scheme u \<longrightarrow> startsWith u ''http'')
   \<and> \<not> startsWith ''_:b0'' ''http''"
proof -
  have "grSubjects (getSourceSubjects env s) =
        filter (\<lambda>u. startsWith u ''http'')
          (map (toString env) (yielded (subjects env (getSourceSubjects_srcPath s src))))"
    if "validateSource env s = Inr src"
    using that getSourceSubjects_try_grSubjects
      [of env "(clearQueryResultAndStatus s)\<lparr>grSubjects := []\<rparr>" src]
    by (simp add: getSourceSubjects_grSubjects_try validateSource_cleared
        getSourceSubjects_srcPath_cleared)
  moreover have "has_http_scheme u \<longrightarrow> startsWith u ''http''"
    unfolding has_http_scheme_def startsWith_def
    by (auto dest: arg_cong [where f = "take 4"])
  moreover have "\<not> startsWith ''_:b0'' ''http''"
    by (simp add: startsWith_def)
  ultimately show ?thesis
    using getSubjectProperties_grSubjectProperties [of s env] by blast
qed

theorem enumerations_filter_witness:
  "validateSource (sample_env (from_list [''https://x/1'', ''_:b0'', ''https://x/2'']))
       (initial ''https://x/'' ''{}'' :: string state) = Inr ''https://x/''
   \<and> grSubjects (getSourceSubjects
         (sample_env (from_list [''https://x/1'', ''_:b0'', ''https://x/2'']))
         (initial ''https://x/'' ''{}'' :: string state))
       = [''https://x/1'', ''https://x/2'']
   \<and> grSubjectProperties (getSubjectProperties
         (sample_env (from_list [''https://x/1'', ''_:b0'', ''https://x/2'']))
         (lstSubjectChangeHandler ''https://x/1''
            (getSourceSubjects (sample_env (from_list [''https://x/1'', ''_:b0'', ''https://x/2'']))
               (initial ''https://x/'' ''{}'' :: string state))))
       = [''https://x/1'', ''_:b0'', ''https://x/2'']"
  using enumerations_filter
      [of "sample_env (from_list [''https://x/1'', ''_:b0'', ''https://x/2''])"
        "initial ''https://x/'' ''{}'' :: string state" "''https://x/''" "''https://x/1''"]
    enumerations_filter
      [of "sample_env (from_list [''https://x/1'', ''_:b0'', ''https://x/2''])"
        "lstSubjectChangeHandler ''https://x/1''
           (getSourceSubjects (sample_env (from_list [''https://x/1'', ''_:b0'', ''https://x/2'']))
              (initial ''https://x/'' ''{}'' :: string state))"
        "''https://x/''" "''https://x/1''"]
  by (simp add: validateSource_def initial_def sample_env_def trim_def is_ws_def startsWith_def
      blank_def lstSubjectChangeHandler_def clearQueryResultAndStatus_def
      getSourceSubjects_def getSourceSubjects_run_def getSourceSubjects_try_def truthy_def refreshLdfQryCtxEngine_def
      set_queryEngine_def js_and_def QC_STALE_SOURCE_CHANGED_def create_def Let_def)

end
